theory Spec2Isabelle
  imports Main "HOL-Library.Word" "HOL-Library.Sublist"
begin

unbundle bit_operations_syntax

section \<open>lotus-provider: \<open>config from-miner\<close> (cmd/lotus-provider/migrate.go)\<close>

text \<open>
  The file holds one command, \<open>configMigrateCmd\<close>, and its action \<open>fromMiner\<close>.
  \<open>fromMiner\<close> reads a miner repository, lists the titles of the layers already in
  the table \<open>harmony_config\<close>, picks the name of the new layer, fills a
  \<open>LotusProviderConfig\<close> from the miner's \<open>config.toml\<close>, its actor address, its JWT
  secret and the chain node's API token, writes the layer (and a \<open>base\<close> layer when
  there is none) and prints instructions.

  Everything \<open>fromMiner\<close> calls outside the file (the repository, the database, the
  keystore, the API, the TOML library) is a field of an environment record holding what
  that call returns in the run; every \<open>return err\<close> and every runtime panic of the Go
  code is a branch of the model.
\<close>

subsection \<open>Errors\<close>

text \<open>
  A Go \<open>error\<close> is modelled by how it was built: \<open>External m\<close> is an error handed back by
  a collaborator (with message \<open>m\<close>), \<open>New m\<close> is \<open>errors.New(m)\<close> or a \<open>fmt.Errorf\<close>
  without \<open>%w\<close>, \<open>Errorf p e\<close> is \<open>fmt.Errorf(p + "%w", e)\<close> (also \<open>xerrors.Errorf\<close>).
  \<open>Panic m\<close> is not an error value: it is a runtime panic, which unwinds \<open>fromMiner\<close>
  instead of returning from it.
\<close>

datatype error =
    External string
  | New string
  | Errorf string error
  | Panic string

text \<open>\<open>err.Error()\<close>: the message of an error.\<close>

fun Error :: "error \<Rightarrow> string" where
  "Error (External m) = m"
| "Error (New m) = m"
| "Error (Errorf p e) = p @ Error e"
| "Error (Panic m) = m"

subsection \<open>The command and its context\<close>

definition FlagMinerRepo :: string where
  "FlagMinerRepo = ''miner-repo''"

definition FlagMinerRepoDeprecation :: string where
  "FlagMinerRepoDeprecation = ''storagerepo''"

datatype flag_value = StringValue string | BoolValue bool

text \<open>
  A \<open>cli.Context\<close> is the flag set of the command after parsing: every name and alias of
  every declared flag, bound to the flag's value.
\<close>

type_synonym cli_context = "(string \<times> flag_value) list"

text \<open>
  The flags \<open>configMigrateCmd\<close> declares: \<open>miner-repo\<close> (alias \<open>storagerepo\<close>),
  \<open>to-layer\<close> (alias \<open>t\<close>) and \<open>replace\<close> (alias \<open>r\<close>). The context of a run binds
  these six names and no other.
\<close>

definition configMigrateCmd :: "string \<Rightarrow> string \<Rightarrow> bool \<Rightarrow> cli_context" where
  "configMigrateCmd minerRepo toLayer replace =
     [(FlagMinerRepo, StringValue minerRepo),
      (FlagMinerRepoDeprecation, StringValue minerRepo),
      (''to-layer'', StringValue toLayer),
      (''t'', StringValue toLayer),
      (''replace'', BoolValue replace),
      (''r'', BoolValue replace)]"

text \<open>
  \<open>cctx.String(name)\<close> and \<open>cctx.Bool(name)\<close> of urfave/cli: the value of the flag, and
  the zero value (\<open>""\<close>, \<open>false\<close>) for a name that is no flag of the command or is a flag
  of the other type.
\<close>

definition ctx_String :: "cli_context \<Rightarrow> string \<Rightarrow> string" where
  "ctx_String cctx name =
     (case map_of cctx name of Some (StringValue s) \<Rightarrow> s | _ \<Rightarrow> [])"

definition ctx_Bool :: "cli_context \<Rightarrow> string \<Rightarrow> bool" where
  "ctx_Bool cctx name =
     (case map_of cctx name of Some (BoolValue b) \<Rightarrow> b | _ \<Rightarrow> False)"

subsection \<open>Formatting a length with \<open>%d\<close>\<close>

definition digit_char :: "nat \<Rightarrow> char" where
  "digit_char d = char_of (48 + d)"

text \<open>\<open>fmt.Sprintf("%d", n)\<close> for \<open>n = len(titles)\<close>, which is never negative.\<close>

fun Sprintf_d :: "nat \<Rightarrow> string" where
  "Sprintf_d n =
     (if n < 10 then [digit_char n] else Sprintf_d (n div 10) @ [digit_char (n mod 10)])"

declare Sprintf_d.simps [simp del]

text \<open>Reading a decimal numeral back, for stating what \<open>Sprintf_d\<close> prints.\<close>

definition digit_value :: "char \<Rightarrow> nat" where
  "digit_value c = of_char c - 48"

definition decimal_value :: "string \<Rightarrow> nat" where
  "decimal_value s = foldl (\<lambda>acc c. 10 * acc + digit_value c) 0 s"

subsection \<open>The name of the new layer (lines 97-104)\<close>

text \<open>
  \<^verbatim>\<open>
  name := cctx.String("to-layer")
  if name == "" {
      name = fmt.Sprintf("mig%d", len(titles))
  } else {
      if lo.Contains(titles, name) && !cctx.Bool("overwrite") {
          return errors.New("the overwrite flag is needed to replace existing layer: " + name)
      }
  }
  \<close>
\<close>

definition DuplicateLayerError :: "string \<Rightarrow> error" where
  "DuplicateLayerError name =
     New (''the overwrite flag is needed to replace existing layer: '' @ name)"

definition fromMiner_name :: "cli_context \<Rightarrow> string list \<Rightarrow> error + string" where
  "fromMiner_name cctx titles =
     (let name = ctx_String cctx ''to-layer'' in
      if name = [] then Inr (''mig'' @ Sprintf_d (length titles))
      else if name \<in> set titles \<and> \<not> ctx_Bool cctx ''overwrite''
        then Inl (DuplicateLayerError name)
        else Inr name)"

subsection \<open>\<open>base64.RawStdEncoding\<close>\<close>

text \<open>
  The standard alphabet of RFC 4648 without padding, as Go's \<open>encoding/base64\<close>
  implements it. A \<open>byte\<close> is 8 bits; Go's \<open>uint\<close> accumulator is 64 bits wide on the
  platforms lotus builds for.
\<close>

type_synonym byte = "8 word"

type_synonym uint = "64 word"

definition encodeStd :: string where
  "encodeStd = ''ABCDEFGHIJKLMNOPQRSTUVWXYZabcdefghijklmnopqrstuvwxyz0123456789+/''"

text \<open>\<open>enc.encode[v]\<close>\<close>

definition encode :: "uint \<Rightarrow> char" where
  "encode v = encodeStd ! unat v"

text \<open>
  \<open>EncodeToString\<close>: three source bytes become four characters; a remainder of one
  byte becomes two characters and a remainder of two bytes three, with no padding
  character. It returns a string and has no error result.
  \<^verbatim>\<open>
  val := uint(src[si+0])<<16 | uint(src[si+1])<<8 | uint(src[si+2])
  dst[di+0] = enc.encode[val>>18&0x3F]
  dst[di+1] = enc.encode[val>>12&0x3F]
  dst[di+2] = enc.encode[val>>6&0x3F]
  dst[di+3] = enc.encode[val&0x3F]
  \<close>
\<close>

fun EncodeToString :: "byte list \<Rightarrow> string" where
  "EncodeToString [] = []"
| "EncodeToString [b0] =
     (let val = push_bit 16 (ucast b0 :: uint) in
      [encode (drop_bit 18 val AND 0x3F), encode (drop_bit 12 val AND 0x3F)])"
| "EncodeToString [b0, b1] =
     (let val = push_bit 16 (ucast b0 :: uint) OR push_bit 8 (ucast b1) in
      [encode (drop_bit 18 val AND 0x3F), encode (drop_bit 12 val AND 0x3F),
       encode (drop_bit 6 val AND 0x3F)])"
| "EncodeToString (b0 # b1 # b2 # src) =
     (let val = push_bit 16 (ucast b0 :: uint) OR push_bit 8 (ucast b1) OR ucast b2 in
      [encode (drop_bit 18 val AND 0x3F), encode (drop_bit 12 val AND 0x3F),
       encode (drop_bit 6 val AND 0x3F), encode (val AND 0x3F)] @ EncodeToString src)"

text \<open>
  The inverse, \<open>RawStdEncoding.DecodeString\<close>. \<open>decodeMap\<close> is the table Go builds from
  the alphabet (\<open>decodeMap[encoder[i]] = uint8(i)\<close>, every other entry invalid); \<open>None\<close>
  stands for the invalid entry and for \<open>CorruptInputError\<close>.
\<close>

fun index_of :: "'a \<Rightarrow> 'a list \<Rightarrow> nat option" where
  "index_of x [] = None"
| "index_of x (y # ys) = (if x = y then Some 0 else map_option Suc (index_of x ys))"

definition decodeMap :: "char \<Rightarrow> byte option" where
  "decodeMap c = map_option of_nat (index_of c encodeStd)"

text \<open>
  \<^verbatim>\<open>
  val := uint(dbuf[0])<<18 | uint(dbuf[1])<<12 | uint(dbuf[2])<<6 | uint(dbuf[3])
  dbuf[2], dbuf[1], dbuf[0] = byte(val>>0), byte(val>>8), byte(val>>16)
  \<close>
  A last quantum of two or three characters gives one or two bytes; a single left-over
  character is corrupt input.
\<close>

fun decodeQuantum :: "byte list \<Rightarrow> byte list option" where
  "decodeQuantum [] = Some []"
| "decodeQuantum [d0] = None"
| "decodeQuantum [d0, d1] =
     (let val = push_bit 18 (ucast d0 :: uint) OR push_bit 12 (ucast d1) in
      Some [ucast (drop_bit 16 val)])"
| "decodeQuantum [d0, d1, d2] =
     (let val = push_bit 18 (ucast d0 :: uint) OR push_bit 12 (ucast d1)
                  OR push_bit 6 (ucast d2) in
      Some [ucast (drop_bit 16 val), ucast (drop_bit 8 val)])"
| "decodeQuantum (d0 # d1 # d2 # d3 # dbuf) =
     (let val = push_bit 18 (ucast d0 :: uint) OR push_bit 12 (ucast d1)
                  OR push_bit 6 (ucast d2) OR ucast d3 in
      map_option (\<lambda>dst. [ucast (drop_bit 16 val), ucast (drop_bit 8 val), ucast val] @ dst)
        (decodeQuantum dbuf))"

text \<open>The decoder skips carriage returns and line feeds and rejects every other
  character outside the alphabet.\<close>

definition DecodeString :: "string \<Rightarrow> byte list option" where
  "DecodeString s =
     (case those (map decodeMap (filter (\<lambda>c. c \<noteq> CHR 0x0D \<and> c \<noteq> CHR 0x0A) s)) of
        None \<Rightarrow> None
      | Some dbuf \<Rightarrow> decodeQuantum dbuf)"

subsection \<open>Configurations\<close>

text \<open>
  \<open>config.HarmonyDB\<close>, the store-connection settings of the miner's configuration
  (\<open>smCfg.HarmonyDB\<close>) and of \<open>config.DefaultStorageMiner()\<close>.
\<close>

record HarmonyDB =
  Hosts :: "string list"
  Username :: string
  Password :: string
  Database :: string
  Port :: string

text \<open>
  \<open>config.LotusProviderConfig\<close>. The struct is declared in \<open>node/config\<close>; \<open>fromMiner\<close>
  assigns \<open>Addresses.MinerAddresses\<close>, \<open>Apis.StorageRPCSecret\<close>, \<open>Apis.ChainApiInfo\<close> and
  \<open>Subsystems.EnableWindowPost\<close>. \<open>Other\<close> holds all the remaining fields, whatever
  they are.
\<close>

record 'o LotusProviderConfig =
  MinerAddresses :: "string list"
  StorageRPCSecret :: string
  ChainApiInfo :: "string list"
  EnableWindowPost :: bool
  Other :: 'o

subsection \<open>The store\<close>

text \<open>
  A value in the \<open>VALUES\<close> list of an \<open>INSERT\<close>: a quoted SQL string literal, or a
  positional parameter \<open>$n\<close>. \<open>fromMiner\<close> issues two statements:
  \<^verbatim>\<open>INSERT INTO harmony_config (title, config) VALUES ('base', '$1')\<close> and
  \<^verbatim>\<open>INSERT INTO harmony_config (title, config) VALUES ($1, $2)\<close>.
  In the first, both values are quoted, so both are literals: the second is the
  two-character string \<open>$1\<close>.
\<close>

datatype sql_value = Literal string | Placeholder nat

datatype sql_stmt = INSERT_INTO_harmony_config sql_value sql_value

text \<open>A call of \<open>db.Exec\<close>: the statement and the arguments passed with it.\<close>

type_synonym exec_call = "sql_stmt \<times> string list"

text \<open>What a value of the statement denotes, given the arguments of the call.\<close>

fun sql_eval :: "string list \<Rightarrow> sql_value \<Rightarrow> string option" where
  "sql_eval args (Literal s) = Some s"
| "sql_eval args (Placeholder n) =
     (if 1 \<le> n \<and> n \<le> length args then Some (args ! (n - 1)) else None)"

text \<open>The title and the content of the row a call asks the store to insert.\<close>

fun row_title :: "exec_call \<Rightarrow> string option" where
  "row_title (INSERT_INTO_harmony_config t c, args) = sql_eval args t"

fun row_config :: "exec_call \<Rightarrow> string option" where
  "row_config (INSERT_INTO_harmony_config t c, args) = sql_eval args c"

subsection \<open>The environment of a run\<close>

text \<open>
  What each call that leaves the file returns in the run, in the order \<open>fromMiner\<close>
  makes them. A call that returns only an error is an \<open>error option\<close> (\<open>None\<close> is
  \<open>nil\<close>); a call that returns a value and an error is a sum. \<open>db_Exec\<close> is called up
  to twice, so it is a function of the calls made before and of the call itself.
  \<open>http_Header\<close> is the header \<open>GetRawAPI\<close> returns: keys with their values.
\<close>

type_synonym http_Header = "(string \<times> string list) list"

record 'o environment =
  repo_NewFS :: "string \<Rightarrow> error option"
  repo_Exists :: "error + bool"
  repo_LockRO :: "error option"
  lr_Config :: "error + HarmonyDB"
  harmonydb_NewFromConfig :: "HarmonyDB \<Rightarrow> error option"
  db_Select_titles :: "error + string list"
  os_ReadFile_config_toml :: "error + string"
  toml_Decode :: "string \<Rightarrow> error + 'o LotusProviderConfig"
  GetStorageMinerAPI :: "error option"
  sm_ActorAddress :: "error + string"
  lr_KeyStore :: "error option"
  ks_Get_JWTSecretName :: "error + byte list"
  GetRawAPI :: "error + http_Header"
  toml_Encode :: "'o LotusProviderConfig \<Rightarrow> error + string"
  getDefaultConfig :: "bool \<Rightarrow> error + string"
  db_Exec :: "exec_call list \<Rightarrow> exec_call \<Rightarrow> error option"
  DefaultStorageMiner_HarmonyDB :: HarmonyDB

subsection \<open>Filling the provider configuration (lines 109-151)\<close>

text \<open>\<open>header.Get(key)\<close>: the first value of the key, \<open>""\<close> when there is none.\<close>

definition header_Get :: "http_Header \<Rightarrow> string \<Rightarrow> string" where
  "header_Get header key = (case map_of header key of Some (v # _) \<Rightarrow> v | _ \<Rightarrow> [])"

text \<open>
  The slice expression \<open>s[7:]\<close> of \<open>header.Get("Authorization")[7:]\<close>. Go checks the
  bound at run time: with fewer than 7 bytes the expression panics. The source has no
  test of the length before it.
\<close>

definition slice_from_7 :: "string \<Rightarrow> error + string" where
  "slice_from_7 s =
     (if length s < 7
      then Inl (Panic (''runtime error: slice bounds out of range [7:'' @ Sprintf_d (length s) @ '']''))
      else Inr (drop 7 s))"

text \<open>
  \<open>lpCfg\<close> is declared with its zero value and \<open>toml.Decode\<close> writes into it what the
  miner's \<open>config.toml\<close> holds under the names of its fields (the source's comment:
  ``Copy over identical settings''); \<open>toml_Decode\<close> of the environment is the struct
  after that call. Then four fields are assigned.
\<close>

definition fromMiner_lpCfg :: "'o environment \<Rightarrow> error + 'o LotusProviderConfig" where
  "fromMiner_lpCfg env =
     (case os_ReadFile_config_toml env of
        Inl err \<Rightarrow> Inl (Errorf ''could not read config.toml: '' err)
      | Inr buf \<Rightarrow>
     (case toml_Decode env buf of
        Inl err \<Rightarrow> Inl (Errorf ''could not decode toml: '' err)
      | Inr lpCfg \<Rightarrow>
     (case GetStorageMinerAPI env of
        Some err \<Rightarrow> Inl (Errorf ''could not get storageMiner API: '' err)
      | None \<Rightarrow>
     (case sm_ActorAddress env of
        Inl err \<Rightarrow> Inl (Errorf ''could not read actor address: '' err)
      | Inr addr \<Rightarrow>
     (case lr_KeyStore env of
        Some err \<Rightarrow> Inl (Errorf ''keystore err: '' err)
      | None \<Rightarrow>
     (case ks_Get_JWTSecretName env of
        Inl err \<Rightarrow> Inl (Errorf ''error getting JWTSecretName: '' err)
      | Inr PrivateKey \<Rightarrow>
     (case GetRawAPI env of
        Inl err \<Rightarrow> Inl (Errorf ''cannot read API: '' err)
      | Inr header \<Rightarrow>
     (case slice_from_7 (header_Get header ''Authorization'') of
        Inl p \<Rightarrow> Inl p
      | Inr token \<Rightarrow>
          Inr (lpCfg\<lparr>MinerAddresses := [addr],
                     StorageRPCSecret := EncodeToString PrivateKey,
                     ChainApiInfo := [token],
                     EnableWindowPost := True\<rparr>)))))))))"

subsection \<open>Writing the layers (lines 157-177)\<close>

text \<open>
  \<^verbatim>\<open>
  if !lo.Contains(titles, "base") {
      cfg, err := getDefaultConfig(true)
      ...
      _, err = db.Exec(ctx, "INSERT INTO harmony_config (title, config) VALUES ('base', '$1')", cfg)
      ...
  }
  _, err = db.Exec(ctx, "INSERT INTO harmony_config (title, config) VALUES ($1, $2)", name, configTOML.String())
  \<close>
  The result is the list of the \<open>db.Exec\<close> calls made, in order, and the error returned
  (\<open>None\<close> when both steps passed).
\<close>

definition base_insert :: "string \<Rightarrow> exec_call" where
  "base_insert cfg =
     (INSERT_INTO_harmony_config (Literal ''base'') (Literal ''$1''), [cfg])"

definition layer_insert :: "string \<Rightarrow> string \<Rightarrow> exec_call" where
  "layer_insert name configTOML =
     (INSERT_INTO_harmony_config (Placeholder 1) (Placeholder 2), [name, configTOML])"

definition fromMiner_store ::
  "'o environment \<Rightarrow> string list \<Rightarrow> string \<Rightarrow> 'o LotusProviderConfig \<Rightarrow>
     exec_call list \<times> error option" where
  "fromMiner_store env titles name lpCfg =
     (case toml_Encode env lpCfg of
        Inl err \<Rightarrow> ([], Some err)
      | Inr configTOML \<Rightarrow>
          if ''base'' \<notin> set titles then
            (case getDefaultConfig env True of
               Inl err \<Rightarrow> ([], Some (Errorf ''Cannot get default config: '' err))
             | Inr cfg \<Rightarrow>
                 (case db_Exec env [] (base_insert cfg) of
                    Some err \<Rightarrow> ([base_insert cfg], Some err)
                  | None \<Rightarrow>
                      ([base_insert cfg, layer_insert name configTOML],
                       db_Exec env [base_insert cfg] (layer_insert name configTOML))))
          else ([layer_insert name configTOML],
                db_Exec env [] (layer_insert name configTOML)))"

subsection \<open>The database options of the follow-up commands (lines 179-195)\<close>

definition dquote :: char where
  "dquote = CHR 0x22"

text \<open>\<open>strings.Join(elems, sep)\<close>\<close>

fun Join :: "string list \<Rightarrow> string \<Rightarrow> string" where
  "Join [] sep = []"
| "Join [e] sep = e"
| "Join (e # es) sep = e @ sep @ Join es sep"

text \<open>
  \<open>def.Hosts[0] != smCfg.HarmonyDB.Hosts[0]\<close> indexes both lists, the default's first:
  an empty list panics. Only the first hosts are compared; the option lists all the
  hosts of the miner.
\<close>

definition index_panic :: error where
  "index_panic = Panic ''runtime error: index out of range [0] with length 0''"

definition fromMiner_dbSettings :: "HarmonyDB \<Rightarrow> HarmonyDB \<Rightarrow> error + string" where
  "fromMiner_dbSettings def smCfg_HarmonyDB =
     (case Hosts def of
        [] \<Rightarrow> Inl index_panic
      | def_host # _ \<Rightarrow>
     (case Hosts smCfg_HarmonyDB of
        [] \<Rightarrow> Inl index_panic
      | host # _ \<Rightarrow>
          Inr ((if def_host \<noteq> host
                then '' --db-host='' @ [dquote] @ Join (Hosts smCfg_HarmonyDB) '','' @ [dquote]
                else [])
             @ (if Port def \<noteq> Port smCfg_HarmonyDB
                then '' --db-port='' @ Port smCfg_HarmonyDB else [])
             @ (if Username def \<noteq> Username smCfg_HarmonyDB
                then '' --db-user='' @ [dquote] @ Username smCfg_HarmonyDB @ [dquote] else [])
             @ (if Password def \<noteq> Password smCfg_HarmonyDB
                then '' --db-password='' @ [dquote] @ Password smCfg_HarmonyDB @ [dquote] else [])
             @ (if Database def \<noteq> Database smCfg_HarmonyDB
                then '' --db-name='' @ [dquote] @ Database smCfg_HarmonyDB @ [dquote] else []))))"

subsection \<open>The message (lines 105, 152-155, 197-203)\<close>

text \<open>
  The second part is a raw string literal that starts with a backslash and the letter
  \<open>n\<close>, not with a line feed.
\<close>

definition fromMiner_msg :: "string \<Rightarrow> string \<Rightarrow> string" where
  "fromMiner_msg name dbSettings =
     ''Layer '' @ name @ '' created. ''
     @ [CHR 0x5C] @ ''nBefore running lotus-provider, ensure any miner/worker answering of WindowPost is disabled by\<newline>(on Miner) DisableBuiltinWindowPoSt=true and (on Workers) not enabling windowpost on CLI or via\<newline>environment variable LOTUS_WORKER_WINDOWPOST.\<newline>''
     @ ''\<newline>To work with the config:\<newline>./lotus-provider '' @ dbSettings @ '' config help ''
     @ ''\<newline>To run Lotus Provider: in its own machine or cgroup without other files, use the command: \<newline>./lotus-provider ''
     @ dbSettings @ '' run --layers='' @ [dquote] @ name @ [dquote] @ ''\<newline>'' @ [CHR 0x09]"

subsection \<open>\<open>fromMiner\<close>\<close>

text \<open>
  The whole action: the \<open>db.Exec\<close> calls it made and either the error it returned (or
  the panic that ended it) or the message it printed before returning \<open>nil\<close>.
\<close>

definition fromMiner :: "'o environment \<Rightarrow> cli_context \<Rightarrow> exec_call list \<times> (error + string)" where
  "fromMiner env cctx =
     (case repo_NewFS env (ctx_String cctx FlagMinerRepo) of
        Some err \<Rightarrow> ([], Inl err)
      | None \<Rightarrow>
     (case repo_Exists env of
        Inl err \<Rightarrow> ([], Inl err)
      | Inr ok \<Rightarrow>
     if \<not> ok then ([], Inl (New ''repo not initialized'')) else
     (case repo_LockRO env of
        Some err \<Rightarrow> ([], Inl (Errorf ''locking repo: '' err))
      | None \<Rightarrow>
     (case lr_Config env of
        Inl err \<Rightarrow> ([], Inl (Errorf ''getting node config: '' err))
      | Inr smCfg_HarmonyDB \<Rightarrow>
     (case harmonydb_NewFromConfig env smCfg_HarmonyDB of
        Some err \<Rightarrow>
          ([], Inl (Errorf (''could not reach the database. Ensure the Miner config toml's HarmonyDB entry''
                            @ '' is setup to reach Yugabyte correctly: '') err))
      | None \<Rightarrow>
     (case db_Select_titles env of
        Inl err \<Rightarrow>
          ([], Inl (New (''miner cannot reach the db. Ensure the config toml's HarmonyDB entry''
                         @ '' is setup to reach Yugabyte correctly: '' @ Error err)))
      | Inr titles \<Rightarrow>
     (case fromMiner_name cctx titles of
        Inl err \<Rightarrow> ([], Inl err)
      | Inr name \<Rightarrow>
     (case fromMiner_lpCfg env of
        Inl err \<Rightarrow> ([], Inl err)
      | Inr lpCfg \<Rightarrow>
     (case fromMiner_store env titles name lpCfg of
        (calls, Some err) \<Rightarrow> (calls, Inl err)
      | (calls, None) \<Rightarrow>
     (case fromMiner_dbSettings (DefaultStorageMiner_HarmonyDB env) smCfg_HarmonyDB of
        Inl p \<Rightarrow> (calls, Inl p)
      | Inr dbSettings \<Rightarrow> (calls, Inr (fromMiner_msg name dbSettings))))))))))))"

subsection \<open>The follow-up options, as a list of fragments\<close>

text \<open>
  A second description of the options, for comparison with \<open>fromMiner_dbSettings\<close>: one
  fragment for each setting that differs from the default, in the order host, port,
  user, password, database name. The host fragment depends on the first hosts only.
\<close>

definition quoted_override :: "string \<Rightarrow> string \<Rightarrow> string" where
  "quoted_override flag v = '' --'' @ flag @ ''='' @ [dquote] @ v @ [dquote]"

definition override_fragments :: "HarmonyDB \<Rightarrow> HarmonyDB \<Rightarrow> string list" where
  "override_fragments def smCfg_HarmonyDB =
     (if hd (Hosts def) \<noteq> hd (Hosts smCfg_HarmonyDB)
      then [quoted_override ''db-host'' (Join (Hosts smCfg_HarmonyDB) '','')] else [])
     @ (if Port def \<noteq> Port smCfg_HarmonyDB
        then ['' --db-port='' @ Port smCfg_HarmonyDB] else [])
     @ (if Username def \<noteq> Username smCfg_HarmonyDB
        then [quoted_override ''db-user'' (Username smCfg_HarmonyDB)] else [])
     @ (if Password def \<noteq> Password smCfg_HarmonyDB
        then [quoted_override ''db-password'' (Password smCfg_HarmonyDB)] else [])
     @ (if Database def \<noteq> Database smCfg_HarmonyDB
        then [quoted_override ''db-name'' (Database smCfg_HarmonyDB)] else [])"

subsection \<open>A run in which every collaborator answers\<close>

text \<open>
  Concrete values for evaluating \<open>fromMiner\<close>: a store that accepts every statement,
  store-connection settings equal to the defaults, an empty \<open>config.toml\<close>, and a
  serializer that prints two of the fields. The remaining fields of the provider
  configuration are represented by a number, and the decoder makes it the length of the
  file, so that different files decode to different settings.
\<close>

definition test_HarmonyDB :: HarmonyDB where
  "test_HarmonyDB =
     \<lparr>Hosts = [''127.0.0.1''], Username = ''yugabyte'', Password = ''yugabyte'',
      Database = ''yugabyte'', Port = ''5433''\<rparr>"

definition test_lpCfg :: "nat LotusProviderConfig" where
  "test_lpCfg =
     \<lparr>MinerAddresses = [], StorageRPCSecret = [], ChainApiInfo = [],
      EnableWindowPost = False, Other = 0\<rparr>"

definition test_Encode :: "nat LotusProviderConfig \<Rightarrow> error + string" where
  "test_Encode lpCfg =
     Inr (''StorageRPCSecret = '' @ StorageRPCSecret lpCfg
          @ ''; ChainApiInfo = '' @ Join (ChainApiInfo lpCfg) '','')"

definition test_default_config :: string where
  "test_default_config = ''[Subsystems]''"

definition test_env :: "string list \<Rightarrow> nat environment" where
  "test_env titles =
     \<lparr>repo_NewFS = (\<lambda>path. None),
      repo_Exists = Inr True,
      repo_LockRO = None,
      lr_Config = Inr test_HarmonyDB,
      harmonydb_NewFromConfig = (\<lambda>cfg. None),
      db_Select_titles = Inr titles,
      os_ReadFile_config_toml = Inr [],
      toml_Decode = (\<lambda>buf. Inr (test_lpCfg\<lparr>Other := length buf\<rparr>)),
      GetStorageMinerAPI = None,
      sm_ActorAddress = Inr ''t01000'',
      lr_KeyStore = None,
      ks_Get_JWTSecretName = Inr [0x4D, 0x61, 0x6E, 0x21],
      GetRawAPI = Inr [(''Authorization'', [''Bearer abc123''])],
      toml_Encode = test_Encode,
      getDefaultConfig = (\<lambda>comment. Inr test_default_config),
      db_Exec = (\<lambda>calls call. None),
      DefaultStorageMiner_HarmonyDB = test_HarmonyDB\<rparr>"

section \<open>Properties\<close>

subsection \<open>The base64 encoding and its inverse\<close>

text \<open>
  The six-bit groups the encoder cuts out of the accumulator fit a byte, and putting
  them together again gives back each byte of the accumulator, whatever its value.
\<close>

lemma mask6: "(0x3F::uint) = mask 6" by (simp add: mask_eq_exp_minus_1)

lemma sext_ucast: "ucast (ucast (w AND mask 6 :: uint) :: byte) = (w AND mask 6 :: uint)"
  by (rule bit_word_eqI) (auto simp add: bit_simps)

lemma hi_byte_2:
  fixes v :: uint
  shows "(ucast (drop_bit 16 (push_bit 18 (drop_bit 18 v AND mask 6) OR push_bit 12 (drop_bit 12 v AND mask 6))) :: byte)
         = ucast (drop_bit 16 v)"
proof (rule bit_word_eqI)
  fix n assume "n < LENGTH(8)"
  then consider "n < 2" | "2 \<le> n" "n < 8" by fastforce
  then show "bit (ucast (drop_bit 16 (push_bit 18 (drop_bit 18 v AND mask 6) OR push_bit 12 (drop_bit 12 v AND mask 6))) :: byte) n
         = bit (ucast (drop_bit 16 v) :: byte) n"
    by cases (auto simp add: bit_simps)
qed

lemma hi_byte_3:
  fixes v :: uint
  shows "(ucast (drop_bit 16 (push_bit 18 (drop_bit 18 v AND mask 6) OR push_bit 12 (drop_bit 12 v AND mask 6)
            OR push_bit 6 (drop_bit 6 v AND mask 6))) :: byte)
         = ucast (drop_bit 16 v)"
proof (rule bit_word_eqI)
  fix n assume "n < LENGTH(8)"
  then consider "n < 2" | "2 \<le> n" "n < 8" by fastforce
  then show "bit (ucast (drop_bit 16 (push_bit 18 (drop_bit 18 v AND mask 6) OR push_bit 12 (drop_bit 12 v AND mask 6)
            OR push_bit 6 (drop_bit 6 v AND mask 6))) :: byte) n
         = bit (ucast (drop_bit 16 v) :: byte) n"
    by cases (auto simp add: bit_simps)
qed

lemma mid_byte_3:
  fixes v :: uint
  shows "(ucast (drop_bit 8 (push_bit 18 (drop_bit 18 v AND mask 6) OR push_bit 12 (drop_bit 12 v AND mask 6)
            OR push_bit 6 (drop_bit 6 v AND mask 6))) :: byte)
         = ucast (drop_bit 8 v)"
proof (rule bit_word_eqI)
  fix n assume "n < LENGTH(8)"
  then consider "n < 4" | "4 \<le> n" "n < 8" by fastforce
  then show "bit (ucast (drop_bit 8 (push_bit 18 (drop_bit 18 v AND mask 6) OR push_bit 12 (drop_bit 12 v AND mask 6)
            OR push_bit 6 (drop_bit 6 v AND mask 6))) :: byte) n
         = bit (ucast (drop_bit 8 v) :: byte) n"
    by cases (auto simp add: bit_simps)
qed

lemma byte_of_val_1: "ucast (drop_bit 16 (push_bit 16 (ucast b0 :: uint))) = (b0 :: byte)"
  by (rule bit_word_eqI) (auto simp add: bit_simps)

lemma byte_of_val_2: 
  "ucast (drop_bit 16 (push_bit 16 (ucast b0 :: uint) OR push_bit 8 (ucast (b1::byte)))) = (b0 :: byte)"
  "ucast (drop_bit 8 (push_bit 16 (ucast b0 :: uint) OR push_bit 8 (ucast (b1::byte)))) = (b1 :: byte)"
  by (rule bit_word_eqI; auto simp add: bit_simps dest: bit_imp_le_length)+

lemma byte_of_val_3: 
  "ucast (drop_bit 16 (push_bit 16 (ucast b0 :: uint) OR push_bit 8 (ucast (b1::byte)) OR ucast (b2 :: byte))) = (b0 :: byte)"
  "ucast (drop_bit 8 (push_bit 16 (ucast b0 :: uint) OR push_bit 8 (ucast (b1::byte)) OR ucast (b2 :: byte))) = (b1 :: byte)"
  "ucast (push_bit 16 (ucast b0 :: uint) OR push_bit 8 (ucast (b1::byte)) OR ucast (b2 :: byte)) = (b2 :: byte)"
  by (rule bit_word_eqI; auto simp add: bit_simps dest: bit_imp_le_length)+


lemma hi_byte_4:
  fixes v :: uint
  shows "(ucast (drop_bit 16 (push_bit 18 (drop_bit 18 v AND mask 6) OR push_bit 12 (drop_bit 12 v AND mask 6)
            OR push_bit 6 (drop_bit 6 v AND mask 6) OR (v AND mask 6))) :: byte)
         = ucast (drop_bit 16 v)"
proof (rule bit_word_eqI)
  fix n assume "n < LENGTH(8)"
  then consider "n < 2" | "2 \<le> n" "n < 8" by fastforce
  then show "bit (ucast (drop_bit 16 (push_bit 18 (drop_bit 18 v AND mask 6) OR push_bit 12 (drop_bit 12 v AND mask 6)
            OR push_bit 6 (drop_bit 6 v AND mask 6) OR (v AND mask 6))) :: byte) n
         = bit (ucast (drop_bit 16 v) :: byte) n"
    by cases (auto simp add: bit_simps)
qed

lemma mid_byte_4:
  fixes v :: uint
  shows "(ucast (drop_bit 8 (push_bit 18 (drop_bit 18 v AND mask 6) OR push_bit 12 (drop_bit 12 v AND mask 6)
            OR push_bit 6 (drop_bit 6 v AND mask 6) OR (v AND mask 6))) :: byte)
         = ucast (drop_bit 8 v)"
proof (rule bit_word_eqI)
  fix n assume "n < LENGTH(8)"
  then consider "n < 4" | "4 \<le> n" "n < 8" by fastforce
  then show "bit (ucast (drop_bit 8 (push_bit 18 (drop_bit 18 v AND mask 6) OR push_bit 12 (drop_bit 12 v AND mask 6)
            OR push_bit 6 (drop_bit 6 v AND mask 6) OR (v AND mask 6))) :: byte) n
         = bit (ucast (drop_bit 8 v) :: byte) n"
    by cases (auto simp add: bit_simps)
qed

lemma lo_byte_4:
  fixes v :: uint
  shows "(ucast (push_bit 18 (drop_bit 18 v AND mask 6) OR push_bit 12 (drop_bit 12 v AND mask 6)
            OR push_bit 6 (drop_bit 6 v AND mask 6) OR (v AND mask 6)) :: byte)
         = ucast v"
proof (rule bit_word_eqI)
  fix n assume "n < LENGTH(8)"
  then consider "n < 6" | "6 \<le> n" "n < 8" by fastforce
  then show "bit (ucast (push_bit 18 (drop_bit 18 v AND mask 6) OR push_bit 12 (drop_bit 12 v AND mask 6)
            OR push_bit 6 (drop_bit 6 v AND mask 6) OR (v AND mask 6)) :: byte) n
         = bit (ucast v :: byte) n"
    by cases (auto simp add: bit_simps)
qed

lemma index_of_nth: "distinct xs \<Longrightarrow> i < length xs \<Longrightarrow> index_of (xs ! i) xs = Some i"
proof (induction xs arbitrary: i)
  case Nil
  then show ?case by simp
next
  case (Cons x xs)
  then show ?case by (cases i) auto
qed

lemma length_encodeStd: "length encodeStd = 64"
  by (simp add: encodeStd_def)

lemma distinct_encodeStd: "distinct encodeStd"
  by (simp add: encodeStd_def)

lemma unat_sextet: "unat (w AND mask 6 :: uint) < 64"
proof -
  have "w AND mask 6 < 2 ^ 6" by (rule and_mask_less') simp
  then show ?thesis by (simp add: word_less_nat_alt)
qed

lemma decodeMap_encode: "decodeMap (encode (w AND mask 6)) = Some (ucast (w AND mask 6))"
  using unat_sextet [of w]
  by (simp add: decodeMap_def encode_def index_of_nth distinct_encodeStd length_encodeStd)

lemma encode_in_alphabet: "encode (w AND mask 6) \<in> set encodeStd"
  using unat_sextet [of w] by (simp add: encode_def length_encodeStd)

lemma alphabet_no_newline: "c \<in> set encodeStd \<Longrightarrow> c \<noteq> CHR 0x0D \<and> c \<noteq> CHR 0x0A"
  by (auto simp add: encodeStd_def)

lemma EncodeToString_alphabet: "set (EncodeToString src) \<subseteq> set encodeStd"
  by (induction src rule: EncodeToString.induct)
     (simp_all add: Let_def mask6 encode_in_alphabet)

lemma filter_EncodeToString:
  "filter (\<lambda>c. c \<noteq> CHR 0x0D \<and> c \<noteq> CHR 0x0A) (EncodeToString src) = EncodeToString src"
  using EncodeToString_alphabet [of src] alphabet_no_newline
  by (auto simp add: filter_id_conv)

lemma decodeQuantum_2:
  "decodeQuantum [ucast (drop_bit 18 v AND mask 6 :: uint), ucast (drop_bit 12 v AND mask 6)]
     = Some [ucast (drop_bit 16 v)]"
  by (simp only: decodeQuantum.simps Let_def sext_ucast hi_byte_2)

lemma decodeQuantum_3:
  "decodeQuantum [ucast (drop_bit 18 v AND mask 6 :: uint), ucast (drop_bit 12 v AND mask 6),
                  ucast (drop_bit 6 v AND mask 6)]
     = Some [ucast (drop_bit 16 v), ucast (drop_bit 8 v)]"
  by (simp only: decodeQuantum.simps Let_def sext_ucast hi_byte_3 mid_byte_3)

lemma decodeQuantum_4:
  "decodeQuantum (ucast (drop_bit 18 v AND mask 6 :: uint) # ucast (drop_bit 12 v AND mask 6)
                  # ucast (drop_bit 6 v AND mask 6) # ucast (v AND mask 6) # dbuf)
     = map_option (\<lambda>dst. [ucast (drop_bit 16 v), ucast (drop_bit 8 v), ucast v] @ dst)
         (decodeQuantum dbuf)"
  by (simp only: decodeQuantum.simps Let_def sext_ucast hi_byte_4 mid_byte_4 lo_byte_4)

lemma decode_chars_EncodeToString:
  "\<exists>dbuf. those (map decodeMap (EncodeToString src)) = Some dbuf \<and> decodeQuantum dbuf = Some src"
proof (induction src rule: EncodeToString.induct)
  case 1
  then show ?case by simp
next
  case (2 b0)
  define v where "v = push_bit 16 (ucast b0 :: uint)"
  have "EncodeToString [b0] = [encode (drop_bit 18 v AND mask 6), encode (drop_bit 12 v AND mask 6)]"
    by (simp only: EncodeToString.simps Let_def mask6 v_def)
  then have "those (map decodeMap (EncodeToString [b0]))
               = Some [ucast (drop_bit 18 v AND mask 6), ucast (drop_bit 12 v AND mask 6)]"
    by (simp only: list.map those.simps decodeMap_encode option.case option.map)
  moreover have "ucast (drop_bit 16 v) = b0"
    unfolding v_def by (rule byte_of_val_1)
  ultimately show ?case
    using decodeQuantum_2 [of v] by simp
next
  case (3 b0 b1)
  define v where "v = push_bit 16 (ucast b0 :: uint) OR push_bit 8 (ucast b1)"
  have "EncodeToString [b0, b1] = [encode (drop_bit 18 v AND mask 6), encode (drop_bit 12 v AND mask 6),
                                   encode (drop_bit 6 v AND mask 6)]"
    by (simp only: EncodeToString.simps Let_def mask6 v_def)
  then have "those (map decodeMap (EncodeToString [b0, b1]))
               = Some [ucast (drop_bit 18 v AND mask 6), ucast (drop_bit 12 v AND mask 6),
                       ucast (drop_bit 6 v AND mask 6)]"
    by (simp only: list.map those.simps decodeMap_encode option.case option.map)
  moreover have "ucast (drop_bit 16 v) = b0" "ucast (drop_bit 8 v) = b1"
    unfolding v_def by (rule byte_of_val_2)+
  ultimately show ?case
    using decodeQuantum_3 [of v] by simp
next
  case (4 b0 b1 b2 src)
  then obtain dbuf where dbuf: "those (map decodeMap (EncodeToString src)) = Some dbuf"
    and src: "decodeQuantum dbuf = Some src" by blast
  define v where "v = push_bit 16 (ucast b0 :: uint) OR push_bit 8 (ucast b1) OR ucast b2"
  have "EncodeToString (b0 # b1 # b2 # src)
          = encode (drop_bit 18 v AND mask 6) # encode (drop_bit 12 v AND mask 6)
            # encode (drop_bit 6 v AND mask 6) # encode (v AND mask 6) # EncodeToString src"
    by (simp only: EncodeToString.simps Let_def mask6 v_def append_Cons append_Nil)
  then have "those (map decodeMap (EncodeToString (b0 # b1 # b2 # src)))
               = Some (ucast (drop_bit 18 v AND mask 6) # ucast (drop_bit 12 v AND mask 6)
                       # ucast (drop_bit 6 v AND mask 6) # ucast (v AND mask 6) # dbuf)"
    by (simp only: list.map those.simps decodeMap_encode option.case option.map dbuf)
  moreover have "ucast (drop_bit 16 v) = b0" "ucast (drop_bit 8 v) = b1" "ucast v = b2"
    unfolding v_def by (rule byte_of_val_3)+
  ultimately show ?case
    using decodeQuantum_4 [of v dbuf] src by simp
qed

lemma DecodeString_EncodeToString: "DecodeString (EncodeToString src) = Some src"
  using decode_chars_EncodeToString [of src]
  by (auto simp add: DecodeString_def filter_EncodeToString)

subsection \<open>The example run\<close>

lemma test_lpCfg_run:
  "fromMiner_lpCfg (test_env titles) =
     Inr \<lparr>MinerAddresses = [''t01000''], StorageRPCSecret = ''TWFuIQ'',
          ChainApiInfo = [''abc123''], EnableWindowPost = True, Other = 0\<rparr>"
  by (simp add: fromMiner_lpCfg_def test_env_def test_lpCfg_def header_Get_def slice_from_7_def
      Let_def encode_def encodeStd_def)

text \<open>
  C7. Decoding the \<open>StorageRPCSecret\<close> that \<open>fromMiner\<close> produces with the inverse of
  the unpadded standard base64 encoding gives exactly the bytes of the private key the
  keystore returned. This holds for every key, so for every non-empty one.
\<close>

theorem secret_decodes_to_key:
  assumes "ks_Get_JWTSecretName env = Inr PrivateKey"
    and "fromMiner_lpCfg env = Inr lpCfg"
  shows "DecodeString (StorageRPCSecret lpCfg) = Some PrivateKey"
  using assms
  by (auto simp add: fromMiner_lpCfg_def DecodeString_EncodeToString
        split: sum.splits option.splits)

theorem secret_decodes_to_key_witness:
  "DecodeString ''TWFuIQ'' = Some [0x4D, 0x61, 0x6E, 0x21]"
proof -
  have k: "ks_Get_JWTSecretName (test_env []) = Inr [0x4D, 0x61, 0x6E, 0x21]"
    by (simp add: test_env_def)
  show ?thesis
    using secret_decodes_to_key [OF k test_lpCfg_run] by simp
qed

subsection \<open>The derived name\<close>

lemma digit_char_digit: "d < 10 \<Longrightarrow> digit_char d \<in> set ''0123456789''"
proof -
  assume "d < 10"
  then have "d \<in> {0,1,2,3,4,5,6,7,8,9}" by auto
  then show ?thesis by (auto simp add: digit_char_def char_of_eq_iff)
qed

lemma Sprintf_d_digits: "set (Sprintf_d n) \<subseteq> set ''0123456789''"
proof (induction n rule: Sprintf_d.induct)
  case (1 n)
  show ?case
  proof (cases "n < 10")
    case True
    then have "Sprintf_d n = [digit_char n]" by (subst Sprintf_d.simps) simp
    then show ?thesis using digit_char_digit [OF True] by simp
  next
    case False
    then have "Sprintf_d n = Sprintf_d (n div 10) @ [digit_char (n mod 10)]"
      by (subst Sprintf_d.simps) simp
    moreover have "digit_char (n mod 10) \<in> set ''0123456789''"
      by (rule digit_char_digit) simp
    ultimately show ?thesis using 1 [OF False] by simp
  qed
qed

lemma digit_value_digit_char: "d < 10 \<Longrightarrow> digit_value (digit_char d) = d"
  by (simp add: digit_value_def digit_char_def)

lemma decimal_value_Sprintf_d: "decimal_value (Sprintf_d n) = n"
proof (induction n rule: Sprintf_d.induct)
  case (1 n)
  show ?case
  proof (cases "n < 10")
    case True
    then show ?thesis
      by (subst Sprintf_d.simps) (simp add: decimal_value_def digit_value_digit_char)
  next
    case False
    then have "decimal_value (Sprintf_d (n div 10)) = n div 10" using 1 by simp
    then show ?thesis using False
      by (subst Sprintf_d.simps) (simp add: decimal_value_def digit_value_digit_char)
  qed
qed

lemma Sprintf_d_no_leading_zero: "n \<noteq> 0 \<Longrightarrow> hd (Sprintf_d n) \<noteq> CHR ''0''"
proof (induction n rule: Sprintf_d.induct)
  case (1 n)
  show ?case
  proof (cases "n < 10")
    case True
    with 1 have "n \<in> {1,2,3,4,5,6,7,8,9}" by auto
    then show ?thesis by (subst Sprintf_d.simps) (auto simp add: digit_char_def char_of_eq_iff)
  next
    case False
    then have "n div 10 \<noteq> 0" by simp
    then have "hd (Sprintf_d (n div 10)) \<noteq> CHR ''0''" using 1 False by simp
    moreover have "Sprintf_d (n div 10) \<noteq> []" by (subst Sprintf_d.simps) simp
    ultimately show ?thesis using False by (subst Sprintf_d.simps) simp
  qed
qed

text \<open>
  C5. With an empty \<open>to-layer\<close>, the name is \<open>mig\<close> followed by the decimal numeral of
  the number of titles the query returned: the characters after \<open>mig\<close> are decimal
  digits, read back they give that number, and there is no leading zero.
\<close>

theorem empty_name_is_mig_count:
  assumes "ctx_String cctx ''to-layer'' = []"
  shows "fromMiner_name cctx titles = Inr (''mig'' @ Sprintf_d (length titles))
         \<and> decimal_value (Sprintf_d (length titles)) = length titles
         \<and> set (Sprintf_d (length titles)) \<subseteq> set ''0123456789''
         \<and> (length titles \<noteq> 0 \<longrightarrow> hd (Sprintf_d (length titles)) \<noteq> CHR ''0'')"
proof -
  have "fromMiner_name cctx titles = Inr (''mig'' @ Sprintf_d (length titles))"
    using assms by (simp add: fromMiner_name_def)
  then show ?thesis
    using Sprintf_d_digits [of "length titles"] Sprintf_d_no_leading_zero [of "length titles"]
    by (simp only: decimal_value_Sprintf_d) blast
qed

theorem empty_name_is_mig_count_witness:
  "fromMiner_name (configMigrateCmd ''~/.lotusminer'' [] False)
     [''base'', ''a'', ''b'', ''c'', ''d'', ''e'', ''f'', ''g'', ''h'', ''i'', ''j'', ''k'']
   = Inr ''mig12''"
proof -
  have e: "ctx_String (configMigrateCmd ''~/.lotusminer'' [] False) ''to-layer'' = []"
    by (simp add: ctx_String_def configMigrateCmd_def FlagMinerRepo_def
          FlagMinerRepoDeprecation_def)
  have l: "length [''base'', ''a'', ''b'', ''c'', ''d'', ''e'', ''f'', ''g'', ''h'', ''i'',
                   ''j'', ''k''] = 12"
    by simp
  have d: "Sprintf_d 12 = ''12''"
    by (simp add: Sprintf_d.simps digit_char_def char_of_eq_iff)
  show ?thesis
    using empty_name_is_mig_count [OF e,
        of "[''base'', ''a'', ''b'', ''c'', ''d'', ''e'', ''f'', ''g'', ''h'', ''i'', ''j'', ''k'']"]
    unfolding l d by simp
qed

subsection \<open>Evaluating the example run\<close>

lemmas ctx_defs = ctx_String_def ctx_Bool_def configMigrateCmd_def FlagMinerRepo_def
  FlagMinerRepoDeprecation_def

lemma test_env_sel:
  "repo_NewFS (test_env titles) path = None"
  "repo_Exists (test_env titles) = Inr True"
  "repo_LockRO (test_env titles) = None"
  "lr_Config (test_env titles) = Inr test_HarmonyDB"
  "harmonydb_NewFromConfig (test_env titles) cfg = None"
  "db_Select_titles (test_env titles) = Inr titles"
  "DefaultStorageMiner_HarmonyDB (test_env titles) = test_HarmonyDB"
  by (simp_all add: test_env_def)

lemma test_store_run:
  "fromMiner_store (test_env titles) ts name lpCfg =
     (if ''base'' \<notin> set ts
      then [base_insert test_default_config,
            layer_insert name (''StorageRPCSecret = '' @ StorageRPCSecret lpCfg
              @ ''; ChainApiInfo = '' @ Join (ChainApiInfo lpCfg) '','')]
      else [layer_insert name (''StorageRPCSecret = '' @ StorageRPCSecret lpCfg
              @ ''; ChainApiInfo = '' @ Join (ChainApiInfo lpCfg) '','')], None)"
  by (simp add: fromMiner_store_def test_env_def test_Encode_def)

lemma test_dbSettings: "fromMiner_dbSettings test_HarmonyDB test_HarmonyDB = Inr []"
  by (simp add: fromMiner_dbSettings_def test_HarmonyDB_def)

lemma Sprintf_d_0: "Sprintf_d 0 = ''0''"
  by (simp add: Sprintf_d.simps digit_char_def char_of_eq_iff)

lemma Sprintf_d_1: "Sprintf_d (Suc 0) = ''1''"
  by (simp add: Sprintf_d.simps digit_char_def char_of_eq_iff)

subsection \<open>The overwrite flag\<close>

text \<open>
  C1. A requested name that is among the titles is refused unless \<open>cctx.Bool("overwrite")\<close>
  holds. The command declares the flag \<open>replace\<close> (alias \<open>r\<close>, ``Use this with
  --to-layer to replace an existing layer'') and no flag \<open>overwrite\<close>, so in every
  context of the command the lookup gives \<open>false\<close>: with titles \<open>base\<close>, \<open>prod\<close>,
  \<open>--to-layer prod\<close> and \<open>--replace\<close> the run still ends with the duplicate-layer error
  and makes no \<open>db.Exec\<close> call.
\<close>

theorem replace_flag_is_not_read:
  "ctx_Bool (configMigrateCmd minerRepo toLayer replace) ''overwrite'' = False
   \<and> fromMiner (test_env [''base'', ''prod'']) (configMigrateCmd ''~/.lotusminer'' ''prod'' True)
       = ([], Inl (DuplicateLayerError ''prod''))"
  by (simp add: fromMiner_def fromMiner_name_def ctx_defs test_env_sel)

subsection \<open>The base layer\<close>

text \<open>
  C2. With no \<open>base\<close> among the titles the first statement of the run inserts a row
  titled \<open>base\<close>, but its content is the quoted literal \<open>$1\<close>, not the serialized default
  configuration passed as the argument; the layer's own statement, with unquoted
  parameters, does store the text passed to it.
\<close>

theorem base_insert_stores_literal:
  "fst (fromMiner (test_env []) (configMigrateCmd ''~/.lotusminer'' [] False))
     = [base_insert test_default_config,
        layer_insert ''mig0'' ''StorageRPCSecret = TWFuIQ; ChainApiInfo = abc123'']
   \<and> row_title (base_insert test_default_config) = Some ''base''
   \<and> row_config (base_insert test_default_config) = Some ''$1''
   \<and> test_default_config \<noteq> ''$1''
   \<and> row_config (layer_insert ''mig0'' ''StorageRPCSecret = TWFuIQ; ChainApiInfo = abc123'')
       = Some ''StorageRPCSecret = TWFuIQ; ChainApiInfo = abc123''"
  by (simp add: fromMiner_def fromMiner_name_def ctx_defs test_env_sel test_store_run
       test_lpCfg_run test_dbSettings Sprintf_d_0
       base_insert_def layer_insert_def test_default_config_def)

subsection \<open>The Authorization header\<close>

text \<open>
  C3. The slice \<open>[7:]\<close> has no guard: with no Authorization value in the header (the
  value read is then \<open>""\<close>) the run ends in a slice-bounds panic, and so does the
  six-character value \<open>Bearer\<close>; a value with the prefix and a token gives the token.
\<close>

theorem short_header_panics:
  "fromMiner ((test_env [''base''])\<lparr>GetRawAPI := Inr []\<rparr>)
       (configMigrateCmd ''~/.lotusminer'' ''x'' False)
     = ([], Inl (Panic ''runtime error: slice bounds out of range [7:0]''))
   \<and> slice_from_7 ''Bearer'' = Inl (Panic ''runtime error: slice bounds out of range [7:6]'')
   \<and> slice_from_7 ''Bearer abc123'' = Inr ''abc123''"
  by (simp add: fromMiner_def fromMiner_name_def ctx_defs test_env_def fromMiner_lpCfg_def
       header_Get_def slice_from_7_def Sprintf_d.simps digit_char_def char_of_eq_iff)

subsection \<open>The fields \<open>fromMiner\<close> does not assign\<close>

text \<open>
  C4, as the code has it. Every field of the produced configuration other than
  \<open>MinerAddresses\<close>, \<open>StorageRPCSecret\<close>, \<open>ChainApiInfo\<close> and \<open>EnableWindowPost\<close> has the
  value that decoding the miner's \<open>config.toml\<close> into the zero-valued struct gave it.
\<close>

theorem other_fields_as_decoded:
  assumes "fromMiner_lpCfg env = Inr lpCfg"
  shows "\<exists>buf decoded. os_ReadFile_config_toml env = Inr buf
           \<and> toml_Decode env buf = Inr decoded
           \<and> Other lpCfg = Other decoded"
  using assms
  by (auto simp add: fromMiner_lpCfg_def split: sum.splits option.splits)

theorem other_fields_as_decoded_witness:
  "\<exists>buf decoded. os_ReadFile_config_toml (test_env []) = Inr buf
           \<and> toml_Decode (test_env []) buf = Inr decoded
           \<and> (0 :: nat) = Other decoded"
  using other_fields_as_decoded [OF test_lpCfg_run [of "[]"]] by simp

text \<open>
  Two miners whose \<open>config.toml\<close> differ get different values in those fields, so the
  values cannot both be the schema's default.
\<close>

theorem other_fields_differ_counterexample:
  "fromMiner_lpCfg (test_env []) =
     Inr \<lparr>MinerAddresses = [''t01000''], StorageRPCSecret = ''TWFuIQ'',
          ChainApiInfo = [''abc123''], EnableWindowPost = True, Other = 0\<rparr>
   \<and> fromMiner_lpCfg ((test_env [])\<lparr>os_ReadFile_config_toml := Inr ''[Fees]''\<rparr>) =
     Inr \<lparr>MinerAddresses = [''t01000''], StorageRPCSecret = ''TWFuIQ'',
          ChainApiInfo = [''abc123''], EnableWindowPost = True, Other = 6\<rparr>
   \<and> (0 :: nat) \<noteq> 6"
  by (simp add: fromMiner_lpCfg_def test_env_def test_lpCfg_def header_Get_def slice_from_7_def
      Let_def encode_def encodeStd_def)

subsection \<open>An empty private key\<close>

text \<open>
  C6, as the code has it. The encoding step cannot fail: a run with an empty private key
  ends exactly as the same run with any other key, except that \<open>StorageRPCSecret\<close> is
  the empty string.
\<close>

theorem empty_key_gives_empty_secret:
  "fromMiner_lpCfg (env\<lparr>ks_Get_JWTSecretName := Inr []\<rparr>)
     = map_sum id (\<lambda>lpCfg. lpCfg\<lparr>StorageRPCSecret := []\<rparr>)
         (fromMiner_lpCfg (env\<lparr>ks_Get_JWTSecretName := Inr PrivateKey\<rparr>))"
  by (simp add: fromMiner_lpCfg_def split: sum.splits option.splits)

text \<open>The example run with an empty key returns a configuration.\<close>

theorem empty_key_counterexample:
  "fromMiner_lpCfg ((test_env [])\<lparr>ks_Get_JWTSecretName := Inr []\<rparr>) =
     Inr \<lparr>MinerAddresses = [''t01000''], StorageRPCSecret = [],
          ChainApiInfo = [''abc123''], EnableWindowPost = True, Other = 0\<rparr>"
  by (simp add: fromMiner_lpCfg_def test_env_def test_lpCfg_def header_Get_def slice_from_7_def)

subsection \<open>The follow-up message\<close>

lemma dbSettings_fragments:
  assumes "Hosts def \<noteq> []" and "Hosts cfg \<noteq> []"
  shows "fromMiner_dbSettings def cfg = Inr (concat (override_fragments def cfg))"
proof -
  obtain d ds where d: "Hosts def = d # ds" using assms(1) by (cases "Hosts def") auto
  obtain h hs where h: "Hosts cfg = h # hs" using assms(2) by (cases "Hosts cfg") auto
  show ?thesis
    by (simp add: fromMiner_dbSettings_def override_fragments_def quoted_override_def d h)
qed

lemma dbSettings_Inr:
  assumes "fromMiner_dbSettings def cfg = Inr s"
  shows "Hosts def \<noteq> [] \<and> Hosts cfg \<noteq> []"
  using assms by (auto simp add: fromMiner_dbSettings_def split: list.splits)

lemma fromMiner_Inr:
  assumes "fromMiner env cctx = (calls, Inr msg)"
  shows "\<exists>cfg name titles dbSettings. lr_Config env = Inr cfg
           \<and> db_Select_titles env = Inr titles
           \<and> fromMiner_name cctx titles = Inr name
           \<and> fromMiner_dbSettings (DefaultStorageMiner_HarmonyDB env) cfg = Inr dbSettings
           \<and> msg = fromMiner_msg name dbSettings"
  using assms
  by (auto simp add: fromMiner_def split: sum.splits option.splits if_splits prod.splits)

text \<open>
  C8, as the code has it. When \<open>fromMiner\<close> prints its message, both host lists are
  non-empty and the options in the message are the concatenation of the fragments of
  \<open>override_fragments\<close>: a quoted \<open>--db-host\<close> with all the miner's hosts when the first
  host differs from the default's first host, an unquoted \<open>--db-port\<close> when the port
  differs, and a quoted \<open>--db-user\<close>, \<open>--db-password\<close>, \<open>--db-name\<close> when the user name,
  the password, the database name differ; nothing for a setting that matches.
\<close>

theorem message_overrides:
  assumes "fromMiner env cctx = (calls, Inr msg)"
  shows "\<exists>cfg name. lr_Config env = Inr cfg
           \<and> Hosts (DefaultStorageMiner_HarmonyDB env) \<noteq> [] \<and> Hosts cfg \<noteq> []
           \<and> msg = fromMiner_msg name
                     (concat (override_fragments (DefaultStorageMiner_HarmonyDB env) cfg))"
proof -
  from fromMiner_Inr [OF assms] obtain cfg name titles dbSettings where
    c: "lr_Config env = Inr cfg"
    and s: "fromMiner_dbSettings (DefaultStorageMiner_HarmonyDB env) cfg = Inr dbSettings"
    and m: "msg = fromMiner_msg name dbSettings"
    by blast
  from dbSettings_Inr [OF s] have
    ne: "Hosts (DefaultStorageMiner_HarmonyDB env) \<noteq> [] \<and> Hosts cfg \<noteq> []" .
  then have "dbSettings = concat (override_fragments (DefaultStorageMiner_HarmonyDB env) cfg)"
    using dbSettings_fragments [of "DefaultStorageMiner_HarmonyDB env" cfg] s by simp
  with c m ne show ?thesis by blast
qed

text \<open>Scenario D of the specification: only the port differs.\<close>

theorem message_overrides_witness:
  "fromMiner ((test_env [''base''])\<lparr>lr_Config := Inr (test_HarmonyDB\<lparr>Port := ''5432''\<rparr>)\<rparr>)
         (configMigrateCmd ''~/.lotusminer'' [] False)
     = ([layer_insert ''mig1'' ''StorageRPCSecret = TWFuIQ; ChainApiInfo = abc123''],
        Inr (fromMiner_msg ''mig1'' '' --db-port=5432''))
   \<and> concat (override_fragments test_HarmonyDB (test_HarmonyDB\<lparr>Port := ''5432''\<rparr>))
       = '' --db-port=5432''"
proof -
  have run: "fromMiner ((test_env [''base''])\<lparr>lr_Config := Inr (test_HarmonyDB\<lparr>Port := ''5432''\<rparr>)\<rparr>)
         (configMigrateCmd ''~/.lotusminer'' [] False)
     = ([layer_insert ''mig1'' ''StorageRPCSecret = TWFuIQ; ChainApiInfo = abc123''],
        Inr (fromMiner_msg ''mig1'' '' --db-port=5432''))"
    by (simp add: fromMiner_def fromMiner_name_def ctx_defs test_env_def test_HarmonyDB_def
         fromMiner_lpCfg_def test_lpCfg_def header_Get_def slice_from_7_def
         Let_def encode_def encodeStd_def fromMiner_store_def test_Encode_def
         fromMiner_dbSettings_def Sprintf_d_1)
  have "concat (override_fragments test_HarmonyDB (test_HarmonyDB\<lparr>Port := ''5432''\<rparr>))
       = '' --db-port=5432''"
    by (simp add: override_fragments_def test_HarmonyDB_def)
  with run message_overrides [OF run] show ?thesis by simp
qed

text \<open>
  A host list that differs from the default only after its first host gives no
  \<open>--db-host\<close> option.
\<close>

theorem second_host_counterexample:
  "Hosts (test_HarmonyDB\<lparr>Hosts := [''127.0.0.1'', ''10.0.0.2'']\<rparr>) \<noteq> Hosts test_HarmonyDB
   \<and> fromMiner ((test_env [''base''])
                   \<lparr>lr_Config := Inr (test_HarmonyDB\<lparr>Hosts := [''127.0.0.1'', ''10.0.0.2'']\<rparr>)\<rparr>)
         (configMigrateCmd ''~/.lotusminer'' ''prod'' False)
       = ([layer_insert ''prod'' ''StorageRPCSecret = TWFuIQ; ChainApiInfo = abc123''],
          Inr (fromMiner_msg ''prod'' []))
   \<and> \<not> sublist ''--db-host'' (fromMiner_msg ''prod'' [])"
proof -
  have "\<not> sublist ''--db-host'' (fromMiner_msg ''prod'' [])"
    by (simp add: fromMiner_msg_def dquote_def sublist_code)
  moreover have "fromMiner ((test_env [''base''])
                   \<lparr>lr_Config := Inr (test_HarmonyDB\<lparr>Hosts := [''127.0.0.1'', ''10.0.0.2'']\<rparr>)\<rparr>)
         (configMigrateCmd ''~/.lotusminer'' ''prod'' False)
       = ([layer_insert ''prod'' ''StorageRPCSecret = TWFuIQ; ChainApiInfo = abc123''],
          Inr (fromMiner_msg ''prod'' []))"
    by (simp add: fromMiner_def fromMiner_name_def ctx_defs test_env_def test_HarmonyDB_def
         fromMiner_lpCfg_def test_lpCfg_def header_Get_def slice_from_7_def
         Let_def encode_def encodeStd_def fromMiner_store_def test_Encode_def
         fromMiner_dbSettings_def)
  ultimately show ?thesis by (simp add: test_HarmonyDB_def)
qed

subsection \<open>A derived name that is already taken\<close>

text \<open>
  C9. With an empty \<open>to-layer\<close> the name phase never fails, whatever the titles and
  whatever the context says about \<open>overwrite\<close>. With the single title \<open>mig1\<close> the derived
  name is \<open>mig1\<close>, which is that title, and the run goes on to insert a row titled
  \<open>mig1\<close> and prints its message.
\<close>

theorem derived_name_not_checked:
  assumes "ctx_String cctx ''to-layer'' = []"
  shows "(\<forall>titles. fromMiner_name cctx titles = Inr (''mig'' @ Sprintf_d (length titles)))
     \<and> fromMiner_name cctx [''mig1''] = Inr ''mig1''
     \<and> ''mig1'' \<in> set [''mig1'']
     \<and> fromMiner (test_env [''mig1'']) cctx
         = ([base_insert test_default_config,
             layer_insert ''mig1'' ''StorageRPCSecret = TWFuIQ; ChainApiInfo = abc123''],
            Inr (fromMiner_msg ''mig1'' []))
     \<and> row_title (layer_insert ''mig1'' ''StorageRPCSecret = TWFuIQ; ChainApiInfo = abc123'')
         = Some ''mig1''"
proof -
  have n: "fromMiner_name cctx titles = Inr (''mig'' @ Sprintf_d (length titles))" for titles
    using assms by (simp add: fromMiner_name_def)
  have n1: "fromMiner_name cctx [''mig1''] = Inr ''mig1''"
    by (simp add: n Sprintf_d_1)
  have "fromMiner (test_env [''mig1'']) cctx
         = ([base_insert test_default_config,
             layer_insert ''mig1'' ''StorageRPCSecret = TWFuIQ; ChainApiInfo = abc123''],
            Inr (fromMiner_msg ''mig1'' []))"
    by (simp add: fromMiner_def n1 test_env_sel test_store_run test_lpCfg_run test_dbSettings)
  then show ?thesis
    using n n1 by (simp add: layer_insert_def)
qed

theorem derived_name_not_checked_witness:
  "fromMiner (test_env [''mig1'']) (configMigrateCmd ''~/.lotusminer'' [] True)
         = ([base_insert test_default_config,
             layer_insert ''mig1'' ''StorageRPCSecret = TWFuIQ; ChainApiInfo = abc123''],
            Inr (fromMiner_msg ''mig1'' []))"
proof -
  have e: "ctx_String (configMigrateCmd ''~/.lotusminer'' [] True) ''to-layer'' = []"
    by (simp add: ctx_defs)
  show ?thesis
    using derived_name_not_checked [OF e] by simp
qed

subsection \<open>Requesting the name \<open>base\<close>\<close>

text \<open>
  C10. When \<open>to-layer\<close> is \<open>base\<close> and \<open>base\<close> is not among the titles, a run that gets
  as far as the store and whose first \<open>db.Exec\<close> returns no error makes two \<open>db.Exec\<close>
  calls, and both insert a row titled \<open>base\<close>.
\<close>

theorem base_inserted_twice:
  assumes "ctx_String cctx ''to-layer'' = ''base''"
      and "''base'' \<notin> set titles"
      and "repo_NewFS env (ctx_String cctx FlagMinerRepo) = None"
      and "repo_Exists env = Inr True"
      and "repo_LockRO env = None"
      and "lr_Config env = Inr cfg"
      and "harmonydb_NewFromConfig env cfg = None"
      and "db_Select_titles env = Inr titles"
      and "fromMiner_lpCfg env = Inr lpCfg"
      and "toml_Encode env lpCfg = Inr configTOML"
      and "getDefaultConfig env True = Inr dflt"
      and "db_Exec env [] (base_insert dflt) = None"
  shows "fst (fromMiner env cctx) = [base_insert dflt, layer_insert ''base'' configTOML]
         \<and> row_title (base_insert dflt) = Some ''base''
         \<and> row_title (layer_insert ''base'' configTOML) = Some ''base''"
proof -
  have n: "fromMiner_name cctx titles = Inr ''base''"
    using assms(1,2) by (simp add: fromMiner_name_def)
  have s: "fromMiner_store env titles ''base'' lpCfg
             = ([base_insert dflt, layer_insert ''base'' configTOML],
                db_Exec env [base_insert dflt] (layer_insert ''base'' configTOML))"
    using assms by (simp add: fromMiner_store_def)
  have "fst (fromMiner env cctx) = [base_insert dflt, layer_insert ''base'' configTOML]"
    using assms by (simp add: fromMiner_def n s split: option.splits sum.splits)
  then show ?thesis
    by (simp add: base_insert_def layer_insert_def)
qed

theorem base_inserted_twice_witness:
  "fst (fromMiner (test_env []) (configMigrateCmd ''~/.lotusminer'' ''base'' False))
     = [base_insert test_default_config,
        layer_insert ''base'' ''StorageRPCSecret = TWFuIQ; ChainApiInfo = abc123'']"
proof -
  have 1: "ctx_String (configMigrateCmd ''~/.lotusminer'' ''base'' False) ''to-layer'' = ''base''"
    by (simp add: ctx_defs)
  have 2: "''base'' \<notin> set ([] :: string list)" by simp
  have 3: "toml_Encode (test_env [])
             \<lparr>MinerAddresses = [''t01000''], StorageRPCSecret = ''TWFuIQ'',
              ChainApiInfo = [''abc123''], EnableWindowPost = True, Other = 0\<rparr>
           = Inr ''StorageRPCSecret = TWFuIQ; ChainApiInfo = abc123''"
    by (simp add: test_env_def test_Encode_def)
  have 4: "getDefaultConfig (test_env []) True = Inr test_default_config"
    by (simp add: test_env_def)
  have 5: "db_Exec (test_env []) [] (base_insert test_default_config) = None"
    by (simp add: test_env_def)
  show ?thesis
    using base_inserted_twice [OF 1 2 test_env_sel(1) test_env_sel(2) test_env_sel(3)
        test_env_sel(4) test_env_sel(5) test_env_sel(6) test_lpCfg_run 3 4 5]
    by simp
qed

end
